theory Spec2Isabelle
  imports Complex_Main "HOL-Library.Log_Nat"
begin

section \<open>Data model\<close>

text \<open>
  The backend keeps three collections that matter for the order lifecycle: users,
  products and orders. Document identifiers are natural numbers. Status values stay
  strings, as in the Mongoose schema of \<^verbatim>\<open>models/Order.js\<close>.
\<close>

subsection \<open>JavaScript numbers\<close>

text \<open>
  A JavaScript number is an IEEE 754 double. Every finite double is a rational number,
  so numbers are values of type \<open>rat\<close>, and an arithmetic operation of the source is
  the exact operation followed by \<open>dbl\<close>, the rounding to the nearest double (53
  significant bits, ties to the even significand, gradual underflow below
  \<open>2 ^ (- 1022)\<close>). Comparisons of doubles are exact. Results beyond the largest
  finite double (\<^verbatim>\<open>Infinity\<close>) and \<^verbatim>\<open>NaN\<close> are outside the model.
\<close>

definition round_half_even :: "rat \<Rightarrow> int" where
  "round_half_even x =
    (let f = \<lfloor>x\<rfloor>; d = x - of_int f
     in if d < 1 / 2 then f else if 1 / 2 < d then f + 1 else if even f then f else f + 1)"

definition pow2 :: "int \<Rightarrow> rat" where
  "pow2 e = (if 0 \<le> e then 2 ^ nat e else 1 / 2 ^ nat (- e))"

text \<open>The binary exponent of a positive rational \<open>a\<close>: \<open>2 ^ k \<le> a < 2 ^ (k + 1)\<close>.\<close>

definition exponent :: "rat \<Rightarrow> int" where
  "exponent a =
    (case quotient_of a of
       (p, q) \<Rightarrow> let k = bitlen p - bitlen q in if pow2 k \<le> a then k else k - 1)"

definition dbl :: "rat \<Rightarrow> rat" where
  "dbl x =
    (if x = 0 then 0
     else
       let a = \<bar>x\<bar>;
           e = max (exponent a - 52) (- 1074)
       in sgn x * of_int (round_half_even (a / pow2 e)) * pow2 e)"

text \<open>The operators \<^verbatim>\<open>+\<close>, \<^verbatim>\<open>-\<close>, \<^verbatim>\<open>*\<close> and \<^verbatim>\<open>/\<close> of the source.\<close>

definition dadd :: "rat \<Rightarrow> rat \<Rightarrow> rat" where
  "dadd a b = dbl (a + b)"

definition dsub :: "rat \<Rightarrow> rat \<Rightarrow> rat" where
  "dsub a b = dbl (a - b)"

definition dmul :: "rat \<Rightarrow> rat \<Rightarrow> rat" where
  "dmul a b = dbl (a * b)"

definition ddiv :: "rat \<Rightarrow> rat \<Rightarrow> rat" where
  "ddiv a b = dbl (a / b)"

subsection \<open>Documents\<close>

text \<open>
  Modelled from the spec: the User model (\<^verbatim>\<open>models/User.js\<close>) is not part of the
  sources at hand; the handlers only read \<^verbatim>\<open>user.role\<close> and \<^verbatim>\<open>user._id\<close>, and the
  spec lists the roles \<^verbatim>\<open>customer\<close>, \<^verbatim>\<open>vendor\<close>, \<^verbatim>\<open>admin\<close>.
\<close>

datatype role = Customer | Vendor | Admin

text \<open>\<^verbatim>\<open>productSchema\<close>: the fields the order handlers read or write.\<close>

record product =
  price :: rat
  offer :: rat
  stock :: rat
  vendor :: nat

text \<open>An item of the request body of \<^verbatim>\<open>POST /api/orders\<close>: \<^verbatim>\<open>{ product, quantity }\<close>.\<close>

record item =
  product :: nat
  quantity :: rat

text \<open>\<^verbatim>\<open>orderItemSchema\<close>: product, quantity, priceAtPurchase.\<close>

record order_item = item +
  priceAtPurchase :: rat

text \<open>
  \<^verbatim>\<open>orderSchema\<close>. The defaults of the schema are \<^verbatim>\<open>status: 'pending'\<close>,
  \<^verbatim>\<open>paymentStatus: 'pending'\<close> and \<^verbatim>\<open>paymentMethod: 'cash_on_delivery'\<close>.
  \<^verbatim>\<open>trackingNumber\<close> and \<^verbatim>\<open>notes\<close> are written by no handler and are left out.
\<close>

record order =
  customer :: nat
  items :: "order_item list"
  total :: rat
  status :: string
  shippingAddress :: "string option"
  paymentMethod :: string
  paymentStatus :: string

text \<open>
  The database. An order's identifier is its position in \<open>orders\<close>: orders are only
  ever appended (no handler deletes one), so identifiers are unique and stable.
\<close>

record db =
  users :: "nat \<Rightarrow> role option"
  products :: "nat \<Rightarrow> product option"
  orders :: "order list"

text \<open>
  The error responses of the handlers, named after the error kinds of the specification:
  \<^item> \<open>Forbidden\<close>: status 403;
  \<^item> \<open>InvalidInput\<close>: status 400 with \<^verbatim>\<open>'No items in order'\<close>, \<^verbatim>\<open>'Invalid status'\<close>,
    \<^verbatim>\<open>'... are required'\<close>, \<^verbatim>\<open>'Refund amount cannot exceed order total'\<close>;
  \<^item> \<open>NotFound\<close>: status 404;
  \<^item> \<open>InsufficientStock\<close>: status 400 with \<^verbatim>\<open>'Insufficient stock for ...'\<close>;
  \<^item> \<open>InvalidTransition\<close>: status 400 with \<^verbatim>\<open>'Order cannot be cancelled at this stage'\<close>,
    \<^verbatim>\<open>'Order is not pending'\<close>, \<^verbatim>\<open>'Order is not paid'\<close>;
  \<^item> \<open>Internal\<close>: status 500, the \<^verbatim>\<open>catch\<close> branch of a handler.
\<close>

datatype error =
  Forbidden | InvalidInput | NotFound | InsufficientStock | InvalidTransition | Internal

definition findOrder :: "db \<Rightarrow> nat \<Rightarrow> order option" where
  "findOrder st oid = (if oid < length (orders st) then Some (orders st ! oid) else None)"

definition saveOrder :: "db \<Rightarrow> nat \<Rightarrow> order \<Rightarrow> db" where
  "saveOrder st oid ord = st\<lparr>orders := (orders st)[oid := ord]\<rparr>"

section \<open>Placing an order: \<^verbatim>\<open>POST /api/orders\<close>\<close>

text \<open>
  The body of the \<^verbatim>\<open>for (const item of items)\<close> loop of \<^verbatim>\<open>routes/order.js\<close>,
  lines 21 to 41. The product collection is threaded through the loop and is returned
  on failure as well: \<^verbatim>\<open>Product.findByIdAndUpdate\<close> has already written the stock of
  the items before the one that fails. \<open>tot\<close> is the variable \<^verbatim>\<open>total\<close> and
  \<open>orderItems\<close> the array of the same name. The price after the offer and the total
  are computed in double arithmetic, operation by operation as in lines 30 to 37. Stock
  and quantity are counts: on integers of magnitude up to \<open>2 ^ 53\<close> the comparison and
  the subtraction of line 40 are exact in doubles, and they are written exactly.
\<close>

fun order_loop ::
  "(nat \<Rightarrow> product option) \<Rightarrow> item list \<Rightarrow> rat \<Rightarrow> order_item list
    \<Rightarrow> (nat \<Rightarrow> product option) \<times> (error + rat \<times> order_item list)" where
  "order_loop ps [] tot orderItems = (ps, Inr (tot, orderItems))"
| "order_loop ps (it # rest) tot orderItems =
    (case ps (product it) of
       None \<Rightarrow> (ps, Inl NotFound)
     | Some pr \<Rightarrow>
         if stock pr < quantity it then (ps, Inl InsufficientStock)
         else
           let discount = (if offer pr = 0 then 0 else offer pr);
               price' = dmul (price pr) (dsub 1 (ddiv discount 100))
           in order_loop
                (ps(product it \<mapsto> pr\<lparr>stock := stock pr - quantity it\<rparr>))
                rest
                (dadd tot (dmul price' (quantity it)))
                (orderItems @
                  [\<lparr>product = product it, quantity = quantity it, priceAtPurchase = price'\<rparr>]))"

text \<open>
  The handler. \<open>uid\<close> is \<^verbatim>\<open>req.user.userId\<close>, \<open>its\<close> the array \<^verbatim>\<open>req.body.items\<close>
  and \<open>addr\<close> the shipping address. The new order takes the defaults of the schema.
\<close>

definition place_order ::
  "db \<Rightarrow> nat \<Rightarrow> item list \<Rightarrow> string option \<Rightarrow> (error + order) \<times> db" where
  "place_order st uid its addr =
    (case users st uid of
       None \<Rightarrow> (Inl Forbidden, st)
     | Some r \<Rightarrow>
         if r \<noteq> Customer then (Inl Forbidden, st)
         else if its = [] then (Inl InvalidInput, st)
         else
           (case order_loop (products st) its 0 [] of
              (ps, Inl e) \<Rightarrow> (Inl e, st\<lparr>products := ps\<rparr>)
            | (ps, Inr (tot, orderItems)) \<Rightarrow>
                let ord = \<lparr>customer = uid, items = orderItems, total = tot,
                            status = ''pending'', shippingAddress = addr,
                            paymentMethod = ''cash_on_delivery'',
                            paymentStatus = ''pending''\<rparr>
                in (Inr ord, st\<lparr>products := ps, orders := orders st @ [ord]\<rparr>)))"

section \<open>The other handlers that write an order\<close>

text \<open>The \<^verbatim>\<open>enum\<close> of \<^verbatim>\<open>status\<close> in \<^verbatim>\<open>orderSchema\<close>.\<close>

definition orderStatuses :: "string list" where
  "orderStatuses =
    [''pending'', ''paid'', ''shipped'', ''delivered'', ''cancelled'', ''refunded'']"

text \<open>
  \<^verbatim>\<open>PUT /api/orders/:id\<close> (admin only), lines 86 to 108. The three fields of the body
  are optional; a field that is absent is not written. \<^verbatim>\<open>runValidators\<close> checks a
  supplied status against the enum of the schema before the update is sent, and its
  failure is caught as status 500.
\<close>

definition update_order ::
  "db \<Rightarrow> nat \<Rightarrow> nat \<Rightarrow> string option \<Rightarrow> rat option \<Rightarrow> string option
    \<Rightarrow> (error + order) \<times> db" where
  "update_order st uid oid status' total' shippingAddress' =
    (case users st uid of
       None \<Rightarrow> (Inl Forbidden, st)
     | Some r \<Rightarrow>
         if r \<noteq> Admin then (Inl Forbidden, st)
         else if (case status' of None \<Rightarrow> False | Some s \<Rightarrow> s \<notin> set orderStatuses)
           then (Inl Internal, st)
         else
           (case findOrder st oid of
              None \<Rightarrow> (Inl NotFound, st)
            | Some ord \<Rightarrow>
                let ord' = ord\<lparr>
                      status := (case status' of None \<Rightarrow> status ord | Some s \<Rightarrow> s),
                      total := (case total' of None \<Rightarrow> total ord | Some t \<Rightarrow> t),
                      shippingAddress :=
                        (case shippingAddress' of None \<Rightarrow> shippingAddress ord
                         | Some a \<Rightarrow> Some a)\<rparr>
                in (Inr ord', saveOrder st oid ord')))"

text \<open>
  \<^verbatim>\<open>Product.find({ vendor: user._id, _id: { $in: productIds } })\<close>: the identifiers
  among \<open>productIds\<close> of the products that exist and belong to the vendor.
\<close>

definition vendorProducts ::
  "(nat \<Rightarrow> product option) \<Rightarrow> nat \<Rightarrow> nat list \<Rightarrow> nat list" where
  "vendorProducts ps uid productIds =
    filter (\<lambda>p. case ps p of None \<Rightarrow> False | Some pr \<Rightarrow> vendor pr = uid)
      (remdups productIds)"

text \<open>
  The loop of lines 140 to 142: \<^verbatim>\<open>$inc: { stock: item.quantity }\<close> for every line.
  \<^verbatim>\<open>findByIdAndUpdate\<close> on a product that no longer exists changes nothing.
\<close>

fun restore_stock ::
  "(nat \<Rightarrow> product option) \<Rightarrow> order_item list \<Rightarrow> (nat \<Rightarrow> product option)" where
  "restore_stock ps [] = ps"
| "restore_stock ps (it # rest) =
    restore_stock
      (case ps (product it) of
         None \<Rightarrow> ps
       | Some pr \<Rightarrow> ps(product it \<mapsto> pr\<lparr>stock := stock pr + quantity it\<rparr>))
      rest"

text \<open>
  \<^verbatim>\<open>DELETE /api/orders/:id\<close> (cancel order), lines 111 to 152. The order is looked up
  before the user is dereferenced: a missing order is 404, a missing user makes
  \<^verbatim>\<open>user.role\<close> throw, which the handler catches as status 500.
\<close>

definition cancel_order :: "db \<Rightarrow> nat \<Rightarrow> nat \<Rightarrow> (error + order) \<times> db" where
  "cancel_order st uid oid =
    (case findOrder st oid of
       None \<Rightarrow> (Inl NotFound, st)
     | Some ord \<Rightarrow>
         (case users st uid of
            None \<Rightarrow> (Inl Internal, st)
          | Some r \<Rightarrow>
              if r = Customer \<and> customer ord \<noteq> uid then (Inl Forbidden, st)
              else if r = Vendor \<and>
                  vendorProducts (products st) uid (map product (items ord)) = []
                then (Inl Forbidden, st)
              else if status ord \<notin> set [''pending'', ''paid'']
                then (Inl InvalidTransition, st)
              else
                let ps = (if status ord = ''paid''
                          then restore_stock (products st) (items ord)
                          else products st);
                    ord' = ord\<lparr>status := ''cancelled''\<rparr>
                in (Inr ord', (saveOrder st oid ord')\<lparr>products := ps\<rparr>)))"

text \<open>
  \<^verbatim>\<open>PATCH /api/orders/:id/pay\<close>, lines 210 to 229.
  \<^verbatim>\<open>Order.findOne({ _id, customer })\<close> finds the order only when the caller owns it.
\<close>

definition pay_order :: "db \<Rightarrow> nat \<Rightarrow> nat \<Rightarrow> (error + order) \<times> db" where
  "pay_order st uid oid =
    (case users st uid of
       None \<Rightarrow> (Inl Forbidden, st)
     | Some r \<Rightarrow>
         if r \<noteq> Customer then (Inl Forbidden, st)
         else
           (case findOrder st oid of
              None \<Rightarrow> (Inl NotFound, st)
            | Some ord \<Rightarrow>
                if customer ord \<noteq> uid then (Inl NotFound, st)
                else if status ord \<noteq> ''pending'' then (Inl InvalidTransition, st)
                else
                  let ord' = ord\<lparr>status := ''paid''\<rparr>
                  in (Inr ord', saveOrder st oid ord')))"

text \<open>
  \<^verbatim>\<open>PATCH /api/orders/:id/status\<close> (vendor), lines 232 to 256. The query
  \<^verbatim>\<open>{ _id, 'items.product': { $in: productIds } }\<close>, with \<^verbatim>\<open>productIds\<close> all the
  products of the vendor, finds the order when one of its lines is a product of the
  vendor. The current status of the order is not read.
\<close>

definition update_status :: "db \<Rightarrow> nat \<Rightarrow> nat \<Rightarrow> string \<Rightarrow> (error + order) \<times> db" where
  "update_status st uid oid status' =
    (case users st uid of
       None \<Rightarrow> (Inl Forbidden, st)
     | Some r \<Rightarrow>
         if r \<noteq> Vendor then (Inl Forbidden, st)
         else if status' \<notin> set [''shipped'', ''delivered'', ''cancelled'']
           then (Inl InvalidInput, st)
         else
           (case findOrder st oid of
              None \<Rightarrow> (Inl NotFound, st)
            | Some ord \<Rightarrow>
                if vendorProducts (products st) uid (map product (items ord)) = []
                  then (Inl NotFound, st)
                else
                  let ord' = ord\<lparr>status := status'\<rparr>
                  in (Inr ord', saveOrder st oid ord')))"

section \<open>Payments: \<^verbatim>\<open>routes/payment.js\<close>\<close>

text \<open>
  The payment router, mounted at \<^verbatim>\<open>/api/payments\<close> by \<^verbatim>\<open>index.js\<close>, is the first
  file of \<^verbatim>\<open>unnamed/part_000\<close>; line numbers are those of that file.
\<close>

text \<open>
  \<^verbatim>\<open>POST /api/payments/confirm\<close>, lines 52 to 89. A field of the body is falsy when
  it is absent or the empty string. The current status of the order is not read.
\<close>

definition confirm_payment ::
  "db \<Rightarrow> nat \<Rightarrow> string option \<Rightarrow> nat option \<Rightarrow> (error + order) \<times> db" where
  "confirm_payment st uid paymentIntentId orderId =
    (if paymentIntentId = None \<or> paymentIntentId = Some [] then (Inl InvalidInput, st)
     else
       (case orderId of
          None \<Rightarrow> (Inl InvalidInput, st)
        | Some oid \<Rightarrow>
            (case findOrder st oid of
               None \<Rightarrow> (Inl NotFound, st)
             | Some ord \<Rightarrow>
                 (case users st uid of
                    None \<Rightarrow> (Inl Internal, st)
                  | Some r \<Rightarrow>
                      if customer ord \<noteq> uid then (Inl Forbidden, st)
                      else
                        let ord' = ord\<lparr>status := ''paid'', paymentMethod := ''card'',
                                        paymentStatus := ''paid''\<rparr>
                        in (Inr ord', saveOrder st oid ord')))))"

text \<open>The \<^verbatim>\<open>refund\<close> object of the response (its random \<^verbatim>\<open>id\<close> is left out).\<close>

record refund_receipt =
  refundAmount :: rat
  refundReason :: string
  refundStatus :: string
  refundOrderId :: nat

text \<open>
  \<^verbatim>\<open>POST /api/payments/refund\<close>, lines 92 to 145. \<^verbatim>\<open>!amount\<close> holds for an absent
  amount and for the amount 0 alike; both are the rational 0 here.
\<close>

definition refund ::
  "db \<Rightarrow> nat \<Rightarrow> nat option \<Rightarrow> rat \<Rightarrow> string option \<Rightarrow> (error + refund_receipt) \<times> db" where
  "refund st uid orderId amount reason =
    (case orderId of
       None \<Rightarrow> (Inl InvalidInput, st)
     | Some oid \<Rightarrow>
         if amount = 0 then (Inl InvalidInput, st)
         else
           (case findOrder st oid of
              None \<Rightarrow> (Inl NotFound, st)
            | Some ord \<Rightarrow>
                (case users st uid of
                   None \<Rightarrow> (Inl Internal, st)
                 | Some r \<Rightarrow>
                     if r \<noteq> Admin \<and> customer ord \<noteq> uid then (Inl Forbidden, st)
                     else if paymentStatus ord \<noteq> ''paid'' then (Inl InvalidTransition, st)
                     else if amount > total ord then (Inl InvalidInput, st)
                     else
                       let receipt = \<lparr>refundAmount = amount,
                             refundReason =
                               (case reason of None \<Rightarrow> ''Customer request''
                                | Some s \<Rightarrow> if s = [] then ''Customer request'' else s),
                             refundStatus = ''succeeded'', refundOrderId = oid\<rparr>;
                           ord' = (if amount = total ord
                                   then ord\<lparr>status := ''refunded'',
                                            paymentStatus := ''refunded''\<rparr>
                                   else ord)
                       in (Inr receipt, saveOrder st oid ord'))))"


section \<open>Product writes: \<^verbatim>\<open>routes/product.js\<close>\<close>

text \<open>
  The product router, mounted at \<^verbatim>\<open>/api/products\<close>, follows the product schema in
  \<^verbatim>\<open>backend/models/Product.js\<close>; the cart router follows the notification router in
  \<^verbatim>\<open>routes/notifications.js\<close>.
\<close>




section \<open>The system as a whole\<close>




section \<open>Shipping cost: \<^verbatim>\<open>POST /api/shipping/calculate\<close>\<close>

text \<open>An item of the request body: \<^verbatim>\<open>{ price, quantity }\<close>; the price may be absent.\<close>

record ship_item =
  item_price :: "rat option"
  item_quantity :: rat

record rate =
  base :: rat
  perKg :: rat
  maxDays :: nat

text \<open>
  The table \<^verbatim>\<open>shippingRates\<close> of lines 32 to 48, as a lookup by method name. A
  decimal literal of the source denotes the double nearest to it. Names that JavaScript
  would find on \<^verbatim>\<open>Object.prototype\<close> are not modelled.
\<close>

definition shippingRates :: "string \<Rightarrow> rate option" where
  "shippingRates m =
    (if m = ''standard''
       then Some \<lparr>base = dbl (599 / 100), perKg = dbl (250 / 100), maxDays = 7\<rparr>
     else if m = ''express''
       then Some \<lparr>base = dbl (1299 / 100), perKg = dbl (400 / 100), maxDays = 3\<rparr>
     else if m = ''overnight''
       then Some \<lparr>base = dbl (2499 / 100), perKg = dbl (600 / 100), maxDays = 1\<rparr>
     else None)"

text \<open>The loop of lines 24 to 29; it returns \<^verbatim>\<open>totalWeight\<close> and \<^verbatim>\<open>totalValue\<close>.\<close>

fun weigh :: "ship_item list \<Rightarrow> rat \<Rightarrow> rat \<Rightarrow> rat \<times> rat" where
  "weigh [] totalWeight totalValue = (totalWeight, totalValue)"
| "weigh (it # rest) totalWeight totalValue =
    (let itemWeight = dbl (5 / 10)
     in weigh rest
          (dadd totalWeight (dmul itemWeight (item_quantity it)))
          (dadd totalValue
            (dmul (case item_price it of None \<Rightarrow> 0 | Some p \<Rightarrow> if p = 0 then 0 else p)
               (item_quantity it))))"

record quote =
  shippingCost :: rat
  estimatedDays :: nat
  shippingMethod :: string
  totalWeight :: rat
  freeShipping :: bool

text \<open>
  The handler, lines 8 to 67. \<open>destination\<close> is \<open>None\<close> when the body has none, and
  \<^verbatim>\<open>!destination\<close> holds of an absent destination and of the empty string alike;
  \<open>shippingMethod'\<close> is \<open>None\<close> when the body has none, and then defaults to
  \<^verbatim>\<open>'standard'\<close>. The response formats \<^verbatim>\<open>totalWeight\<close> with two decimals, which is
  not modelled.
\<close>

definition calculate ::
  "ship_item list \<Rightarrow> string option \<Rightarrow> string option \<Rightarrow> error + quote" where
  "calculate its destination shippingMethod' =
    (let method = (case shippingMethod' of None \<Rightarrow> ''standard'' | Some m \<Rightarrow> m)
     in if its = [] then Inl InvalidInput
        else if destination = None \<or> destination = Some [] then Inl InvalidInput
        else
          (case weigh its 0 0 of
             (weight, val) \<Rightarrow>
               let rate = (case shippingRates method of
                             None \<Rightarrow> \<lparr>base = dbl (599 / 100), perKg = dbl (250 / 100),
                                      maxDays = 7\<rparr>
                           | Some r \<Rightarrow> r);
                   cost = dadd (base rate) (dmul weight (perKg rate));
                   finalShippingCost = (if val > 50 then 0 else cost)
               in Inr \<lparr>shippingCost = finalShippingCost, estimatedDays = maxDays rate,
                        shippingMethod = method, totalWeight = weight,
                        freeShipping = (val > 50)\<rparr>))"

section \<open>Notions used to state the properties\<close>

text \<open>
  The total quantity that the lines \<open>its\<close> order of product \<open>p\<close>, and the unit price
  of product \<open>p\<close> after its offer: \<open>price \<times> (1 - offer / 100)\<close>, each operation in
  double arithmetic.
\<close>

definition ordered_qty :: "nat \<Rightarrow> 'a item_scheme list \<Rightarrow> rat" where
  "ordered_qty p its = (\<Sum>it\<leftarrow>its. if product it = p then quantity it else 0)"


text \<open>
  Two concrete databases for the examples: a shop with a customer (21), a vendor (22),
  an admin (23) and two products, and the same shop with four orders of the customer.
\<close>

definition shop :: db where
  "shop = \<lparr>users = [21 \<mapsto> Customer, 22 \<mapsto> Vendor, 23 \<mapsto> Admin],
           products = [10 \<mapsto> \<lparr>price = 20, offer = 10, stock = 5, vendor = 22\<rparr>,
                       11 \<mapsto> \<lparr>price = 8, offer = 0, stock = 1, vendor = 22\<rparr>],
           orders = []\<rparr>"

definition market :: db where
  "market = shop\<lparr>orders :=
     [\<lparr>customer = 21,
       items = [\<lparr>product = 10, quantity = 2, priceAtPurchase = 18\<rparr>,
                \<lparr>product = 11, quantity = 1, priceAtPurchase = 8\<rparr>,
                \<lparr>product = 10, quantity = 1, priceAtPurchase = 18\<rparr>],
       total = 62, status = ''paid'', shippingAddress = None,
       paymentMethod = ''card'', paymentStatus = ''paid''\<rparr>,
      \<lparr>customer = 21,
       items = [\<lparr>product = 10, quantity = 1, priceAtPurchase = 18\<rparr>],
       total = 18, status = ''pending'', shippingAddress = None,
       paymentMethod = ''cash_on_delivery'', paymentStatus = ''pending''\<rparr>,
      \<lparr>customer = 21,
       items = [\<lparr>product = 11, quantity = 1, priceAtPurchase = 8\<rparr>],
       total = 8, status = ''delivered'', shippingAddress = None,
       paymentMethod = ''card'', paymentStatus = ''paid''\<rparr>,
      \<lparr>customer = 21,
       items = [\<lparr>product = 11, quantity = 1, priceAtPurchase = 0\<rparr>],
       total = 0, status = ''paid'', shippingAddress = None,
       paymentMethod = ''card'', paymentStatus = ''paid''\<rparr>]\<rparr>"

section \<open>Properties of double arithmetic\<close>

text \<open>
  Rounding is exact on the integers of magnitude up to \<open>2 ^ 53\<close>, so sums, differences
  and products of counts are exact as long as they stay in that range.
\<close>

lemma round_half_even_of_int [simp]: "round_half_even (of_int m) = m"
  by (simp add: round_half_even_def)

lemma bitlen_one: "bitlen 1 = 1"
  by code_simp

lemma exponent_of_int:
  assumes "0 < m"
  shows "exponent (of_int m) = bitlen m - 1"
proof -
  from bitlen_bounds [OF assms] have b: "2 ^ nat (bitlen m - 1) \<le> m" by simp
  have pos: "0 \<le> bitlen m - 1"
    using assms bitlen_eq_zero_iff [of m] bitlen_nonneg [of m] by linarith
  have "(2::rat) ^ nat (bitlen m - 1) \<le> of_int m"
    using b by (metis of_int_le_iff of_int_numeral of_int_power)
  then show ?thesis
    using pos by (simp add: exponent_def quotient_of_int pow2_def Let_def bitlen_one)
qed

lemma dbl_of_pos_int:
  assumes "0 < m" and "m \<le> 2 ^ 53"
  shows "dbl (of_int m) = of_int m"
proof -
  define e where "e = bitlen m - 1 - 52"
  from bitlen_bounds [OF assms(1)] have b: "2 ^ nat (bitlen m - 1) \<le> m" by simp
  have pos: "0 \<le> bitlen m - 1"
    using assms(1) bitlen_eq_zero_iff [of m] bitlen_nonneg [of m] by linarith
  have k53: "nat (bitlen m - 1) \<le> 53"
  proof (rule power_le_imp_le_exp)
    show "(1::int) < 2" by simp
    show "(2::int) ^ nat (bitlen m - 1) \<le> 2 ^ 53" using b assms(2) by linarith
  qed
  have ex: "max (exponent (of_int m) - 52) (- 1074) = e"
    using pos by (simp add: exponent_of_int [OF assms(1)] e_def)
  have scaled: "\<exists>i. of_int m / pow2 e = (of_int i :: rat)"
  proof (cases "e \<le> 0")
    case True
    then have p: "pow2 e = 1 / 2 ^ nat (- e)"
      by (auto simp: pow2_def)
    have "of_int m / pow2 e = (of_int (m * 2 ^ nat (- e)) :: rat)"
      by (simp add: p)
    then show ?thesis ..
  next
    case False
    with k53 pos have e1: "e = 1" by (simp add: e_def)
    then have "bitlen m - 1 = 53" by (simp add: e_def)
    with b assms(2) have m: "m = 2 ^ 53" by simp
    have "of_int m / pow2 e = (of_int (2 ^ 52) :: rat)"
      by (simp add: e1 m pow2_def)
    then show ?thesis ..
  qed
  then obtain i where i: "of_int m / pow2 e = (of_int i :: rat)" ..
  have nz: "pow2 e \<noteq> 0"
    by (simp add: pow2_def)
  have "round_half_even (of_int m / pow2 e) = i"
    by (simp only: i round_half_even_of_int)
  then have "of_int (round_half_even (of_int m / pow2 e)) * pow2 e = (of_int i :: rat) * pow2 e"
    by simp
  also have "\<dots> = of_int m / pow2 e * pow2 e"
    by (simp only: i)
  also have "\<dots> = of_int m"
    using nz by simp
  finally have "of_int (round_half_even (of_int m / pow2 e)) * pow2 e = (of_int m :: rat)" .
  then show ?thesis
    using assms(1) ex by (simp add: dbl_def Let_def)
qed

lemma dbl_minus: "dbl (- x) = - dbl x"
  by (simp add: dbl_def Let_def)

lemma dbl_of_int:
  assumes "\<bar>n\<bar> \<le> 2 ^ 53"
  shows "dbl (of_int n) = of_int n"
proof (cases "0 < n")
  case True
  with assms show ?thesis by (simp add: dbl_of_pos_int)
next
  case False
  show ?thesis
  proof (cases "n = 0")
    case True
    then show ?thesis by (simp add: dbl_def)
  next
    case False
    with \<open>\<not> 0 < n\<close> have "0 < - n" by simp
    moreover from assms have "- n \<le> 2 ^ 53" by simp
    ultimately have "dbl (of_int (- n)) = of_int (- n)" by (rule dbl_of_pos_int)
    then show ?thesis by (simp add: dbl_minus)
  qed
qed

lemma dbl_Ints:
  assumes "x \<in> \<int>" and "\<bar>x\<bar> \<le> 9007199254740992"
  shows "dbl x = x"
proof -
  from assms(1) obtain n where x: "x = of_int n" by (auto elim: Ints_cases)
  with assms(2) have "\<bar>(of_int n :: rat)\<bar> \<le> of_int 9007199254740992" by simp
  then have "\<bar>n\<bar> \<le> 9007199254740992"
    by (metis of_int_abs of_int_le_iff)
  then show ?thesis
    using dbl_of_int [of n] x by simp
qed

lemma dadd_Ints:
  "x \<in> \<int> \<Longrightarrow> y \<in> \<int> \<Longrightarrow> \<bar>x + y\<bar> \<le> 9007199254740992 \<Longrightarrow> dadd x y = x + y"
  by (simp add: dadd_def dbl_Ints)

lemma dsub_Ints:
  "x \<in> \<int> \<Longrightarrow> y \<in> \<int> \<Longrightarrow> \<bar>x - y\<bar> \<le> 9007199254740992 \<Longrightarrow> dsub x y = x - y"
  by (simp add: dsub_def dbl_Ints)

lemma dmul_Ints:
  "x \<in> \<int> \<Longrightarrow> y \<in> \<int> \<Longrightarrow> \<bar>x * y\<bar> \<le> 9007199254740992 \<Longrightarrow> dmul x y = x * y"
  by (simp add: dmul_def dbl_Ints)

text \<open>
  Values of the source's arithmetic that are not exact: \<^verbatim>\<open>20 * (1 - 80 / 100)\<close> is
  \<^verbatim>\<open>3.999999999999999\<close>, \<^verbatim>\<open>0.1 * 3\<close> is \<^verbatim>\<open>0.30000000000000004\<close>,
  \<^verbatim>\<open>12.99 + 3 * 4.00\<close> is \<^verbatim>\<open>24.990000000000002\<close>, and \<^verbatim>\<open>16.666666666666668 * 3\<close>
  is \<^verbatim>\<open>50\<close>.
\<close>

lemma dbl_examples:
  "dmul 20 (dsub 1 (ddiv 80 100)) = 4503599627370495 / 1125899906842624"
  "dmul (dbl (1 / 10)) 3 = 1351079888211149 / 4503599627370496"
  "dadd (dbl (1299 / 100)) (dmul 3 (dbl 4)) = 3517029833999647 / 140737488355328"
  "dmul (4691249611844267 / 281474976710656) 3 = 50"
  by code_simp+

lemma unit_price_examples:
  "dmul 20 (dsub 1 (ddiv 10 100)) = 18"
  "dmul 8 (dsub 1 (ddiv 0 100)) = 8"
  by code_simp+

section \<open>Properties of the shipping estimator\<close>

lemma weigh_folds:
  "weigh its w v =
    (foldl (\<lambda>w it. dadd w (dmul (dbl (5 / 10)) (item_quantity it))) w its,
     foldl (\<lambda>v it. dadd v
         (dmul (case item_price it of None \<Rightarrow> 0 | Some p \<Rightarrow> p) (item_quantity it))) v its)"
proof (induction its arbitrary: w v)
  case Nil
  show ?case by simp
next
  case (Cons x xs)
  have "(case item_price x of None \<Rightarrow> 0 | Some p \<Rightarrow> if p = 0 then 0 else p) =
      (case item_price x of None \<Rightarrow> 0 | Some p \<Rightarrow> p)"
    by (simp split: option.splits)
  then show ?case
    by (simp add: Cons.IH Let_def)
qed

text \<open>
  Claim C9. For a request with at least one item and a destination, and a method of the
  rate table, the shipping cost is \<open>base + perKg \<times> totalWeight\<close>, where the total weight
  is half a kilogram per unit of quantity, added up over the items in request order;
  when the subtotal of the items (price times quantity, added up in request order, an
  absent price counting as 0) is strictly greater than 50, the cost is 0 whatever the
  weight and the method. All sums and products are those of the handler, in double
  arithmetic.
\<close>

theorem calculate_cost:
  assumes "its \<noteq> []" and "destination \<noteq> None" and "destination \<noteq> Some []"
    and "shippingRates m = Some r"
    and "weight = foldl (\<lambda>w it. dadd w (dmul (dbl (5 / 10)) (item_quantity it))) 0 its"
    and "subtotal = foldl (\<lambda>v it. dadd v
           (dmul (case item_price it of None \<Rightarrow> 0 | Some p \<Rightarrow> p) (item_quantity it))) 0 its"
  shows "calculate its destination (Some m) =
    Inr \<lparr>shippingCost = (if subtotal > 50 then 0 else dadd (base r) (dmul weight (perKg r))),
         estimatedDays = maxDays r,
         shippingMethod = m,
         totalWeight = weight,
         freeShipping = (subtotal > 50)\<rparr>"
  using assms by (simp add: calculate_def weigh_folds)

theorem calculate_cost_witness:
  "calculate [\<lparr>item_price = Some 10, item_quantity = 2\<rparr>, \<lparr>item_price = None, item_quantity = 4\<rparr>]
      (Some ''home'') (Some ''express'') =
    Inr \<lparr>shippingCost = 3517029833999647 / 140737488355328, estimatedDays = 3,
         shippingMethod = ''express'', totalWeight = 3, freeShipping = False\<rparr>
   \<and> calculate [\<lparr>item_price = Some 30, item_quantity = 2\<rparr>] (Some ''home'') (Some ''overnight'') =
    Inr \<lparr>shippingCost = 0, estimatedDays = 1, shippingMethod = ''overnight'',
         totalWeight = 1, freeShipping = True\<rparr>"
proof -
  have r1: "shippingRates ''express'' =
      Some \<lparr>base = dbl (1299 / 100), perKg = dbl (400 / 100), maxDays = 3\<rparr>"
    by (simp add: shippingRates_def)
  have w1: "foldl (\<lambda>w it. dadd w (dmul (dbl (5 / 10)) (item_quantity it))) 0
      [\<lparr>item_price = Some 10, item_quantity = 2\<rparr>, \<lparr>item_price = None, item_quantity = 4\<rparr>] = 3"
    by code_simp
  have s1: "foldl (\<lambda>v it. dadd v
         (dmul (case item_price it of None \<Rightarrow> 0 | Some p \<Rightarrow> p) (item_quantity it))) 0
      [\<lparr>item_price = Some 10, item_quantity = 2\<rparr>, \<lparr>item_price = None, item_quantity = 4\<rparr>] = 20"
    by code_simp
  have r2: "shippingRates ''overnight'' =
      Some \<lparr>base = dbl (2499 / 100), perKg = dbl (600 / 100), maxDays = 1\<rparr>"
    by (simp add: shippingRates_def)
  have w2: "foldl (\<lambda>w it. dadd w (dmul (dbl (5 / 10)) (item_quantity it))) 0
      [\<lparr>item_price = Some 30, item_quantity = 2\<rparr>] = 1"
    by code_simp
  have s2: "foldl (\<lambda>v it. dadd v
         (dmul (case item_price it of None \<Rightarrow> 0 | Some p \<Rightarrow> p) (item_quantity it))) 0
      [\<lparr>item_price = Some 30, item_quantity = 2\<rparr>] = 60"
    by code_simp
  have ne: "Some ''home'' \<noteq> None" "Some ''home'' \<noteq> Some []"
    by simp_all
  show ?thesis
    using calculate_cost [OF _ ne r1 w1 [symmetric] s1 [symmetric]]
      calculate_cost [OF _ ne r2 w2 [symmetric] s2 [symmetric]]
    by (simp add: dbl_examples)
qed

text \<open>
  At the threshold: three units at \<^verbatim>\<open>16.666666666666668\<close> have the subtotal
  \<^verbatim>\<open>50\<close> in the handler's arithmetic, which is not above 50, and are charged
  \<^verbatim>\<open>9.74\<close>. An empty destination string is refused like an absent one.
\<close>

lemma calculate_threshold_example:
  "calculate [\<lparr>item_price = Some (4691249611844267 / 281474976710656), item_quantity = 3\<rparr>]
      (Some ''home'') (Some ''standard'') =
    Inr \<lparr>shippingCost = 5483132546323579 / 562949953421312, estimatedDays = 7,
         shippingMethod = ''standard'', totalWeight = 3 / 2, freeShipping = False\<rparr>"
  by code_simp

lemma calculate_empty_destination:
  "calculate its (Some []) m = Inl InvalidInput"
  by (simp add: calculate_def Let_def)

section \<open>Properties of placing an order\<close>

lemma ordered_qty_Nil [simp]: "ordered_qty p [] = 0"
  by (simp add: ordered_qty_def)

lemma ordered_qty_Cons [simp]:
  "ordered_qty p (it # its) = (if product it = p then quantity it else 0) + ordered_qty p its"
  by (simp add: ordered_qty_def)
















text \<open>
  Claim C8. The handler never checks that a quantity is at least 1 (the cart handler
  \<^verbatim>\<open>POST /api/cart/add\<close> does). A customer's order of \<open>- 2\<close> units succeeds: the
  persisted line has quantity \<open>- 2\<close>, the total is negative, and the stock of the
  product rises from 5 to 7.
\<close>

theorem place_order_negative_quantity:
  "fst (place_order shop 21 [\<lparr>product = 10, quantity = - 2\<rparr>] None) =
      Inr \<lparr>customer = 21,
           items = [\<lparr>product = 10, quantity = - 2, priceAtPurchase = 18\<rparr>],
           total = - 36, status = ''pending'', shippingAddress = None,
           paymentMethod = ''cash_on_delivery'', paymentStatus = ''pending''\<rparr>
   \<and> products shop 10 = Some \<lparr>price = 20, offer = 10, stock = 5, vendor = 22\<rparr>
   \<and> products (snd (place_order shop 21 [\<lparr>product = 10, quantity = - 2\<rparr>] None)) 10 =
      Some \<lparr>price = 20, offer = 10, stock = 7, vendor = 22\<rparr>"
  by (simp add: place_order_def shop_def Let_def unit_price_examples dadd_Ints dmul_Ints)

text \<open>
  What does hold of every request: a stock that was not negative stays so, and the
  persisted lines carry the quantities of the request unchanged.
\<close>

lemma order_loop_stock_nonneg:
  assumes "\<forall>p pr. ps p = Some pr \<longrightarrow> 0 \<le> stock pr"
    and "order_loop ps its tot ois = (ps', res)"
  shows "\<forall>p pr. ps' p = Some pr \<longrightarrow> 0 \<le> stock pr"
  using assms
proof (induction its arbitrary: ps tot ois)
  case Nil
  then show ?case by simp
next
  case (Cons x xs)
  show ?case
  proof (cases "ps (product x)")
    case None
    with Cons.prems show ?thesis by simp
  next
    case (Some pr)
    show ?thesis
    proof (cases "stock pr < quantity x")
      case True
      with Some Cons.prems show ?thesis by simp
    next
      case False
      let ?ps1 = "ps(product x \<mapsto> pr\<lparr>stock := stock pr - quantity x\<rparr>)"
      have inv: "\<forall>p pr'. ?ps1 p = Some pr' \<longrightarrow> 0 \<le> stock pr'"
        using Cons.prems(1) False by auto
      from Cons.prems(2) Some False obtain t l where "order_loop ?ps1 xs t l = (ps', res)"
        by (simp add: Let_def)
      from Cons.IH [OF inv this] show ?thesis .
    qed
  qed
qed

lemma order_loop_quantities:
  "order_loop ps its tot ois = (ps', Inr (tot', ois')) \<Longrightarrow>
     map quantity ois' = map quantity ois @ map quantity its"
  by (induction its arbitrary: ps tot ois) (auto simp: Let_def split: option.splits if_splits)

text \<open>
  A product of price 20 with an offer of 80 is sold at \<^verbatim>\<open>3.999999999999999\<close>, as in the
  source, not at 4.
\<close>

lemma place_order_rounding_example:
  "fst (place_order
         (shop\<lparr>products := [10 \<mapsto> \<lparr>price = 20, offer = 80, stock = 5, vendor = 22\<rparr>]\<rparr>)
         21 [\<lparr>product = 10, quantity = 1\<rparr>] None) =
     Inr \<lparr>customer = 21,
          items = [\<lparr>product = 10, quantity = 1,
                    priceAtPurchase = 4503599627370495 / 1125899906842624\<rparr>],
          total = 4503599627370495 / 1125899906842624, status = ''pending'',
          shippingAddress = None, paymentMethod = ''cash_on_delivery'',
          paymentStatus = ''pending''\<rparr>"
  by code_simp

section \<open>Properties of cancellation\<close>




section \<open>Properties of refunds\<close>

lemma saveOrder_same: "findOrder st oid = Some ord \<Longrightarrow> saveOrder st oid ord = st"
  by (auto simp: findOrder_def saveOrder_def split: if_splits)

lemma findOrder_saveOrder:
  "findOrder (saveOrder st oid' ord') oid =
     (if oid = oid' \<and> oid < length (orders st) then Some ord' else findOrder st oid)"
  by (auto simp: findOrder_def saveOrder_def)

lemma findOrder_products_update [simp]:
  "findOrder (st\<lparr>products := ps\<rparr>) oid = findOrder st oid"
  by (simp add: findOrder_def)

lemma findOrder_Some_less: "findOrder st oid = Some ord \<Longrightarrow> oid < length (orders st)"
  by (auto simp: findOrder_def split: if_splits)

text \<open>
  Claim C5 (as amended). A refund request on an order is accepted only when the order's
  payment status is \<^verbatim>\<open>'paid'\<close> and the refund amount is not zero and does not exceed
  the order's total; a refund amount strictly greater than the total is rejected and
  changes nothing; a refund by an admin or by the customer who owns the order, on an
  order whose payment status is \<^verbatim>\<open>'paid'\<close>, whose amount is not zero and is exactly
  the total, is accepted and sets both the status and the payment status of the order to
  \<^verbatim>\<open>'refunded'\<close>.
\<close>

theorem refund_rules:
  assumes "findOrder st oid = Some ord"
  shows "(\<not> isl (fst (refund st uid (Some oid) amount reason)) \<longrightarrow>
            paymentStatus ord = ''paid'' \<and> amount \<le> total ord \<and> amount \<noteq> 0) \<and>
         (amount > total ord \<longrightarrow>
            isl (fst (refund st uid (Some oid) amount reason)) \<and>
            snd (refund st uid (Some oid) amount reason) = st) \<and>
         (users st uid = Some r \<and> (r = Admin \<or> customer ord = uid) \<and>
          paymentStatus ord = ''paid'' \<and> amount = total ord \<and> amount \<noteq> 0 \<longrightarrow>
            \<not> isl (fst (refund st uid (Some oid) amount reason)) \<and>
            snd (refund st uid (Some oid) amount reason) =
              st\<lparr>orders := (orders st)
                   [oid := ord\<lparr>status := ''refunded'', paymentStatus := ''refunded''\<rparr>]\<rparr>)"
  using assms
  by (auto simp: refund_def saveOrder_def Let_def split: option.splits)

theorem refund_rules_witness:
  "\<not> isl (fst (refund market 21 (Some 0) 62 None))
   \<and> findOrder (snd (refund market 21 (Some 0) 62 None)) 0 =
       Some \<lparr>customer = 21,
         items = [\<lparr>product = 10, quantity = 2, priceAtPurchase = 18\<rparr>,
                  \<lparr>product = 11, quantity = 1, priceAtPurchase = 8\<rparr>,
                  \<lparr>product = 10, quantity = 1, priceAtPurchase = 18\<rparr>],
         total = 62, status = ''refunded'', shippingAddress = None,
         paymentMethod = ''card'', paymentStatus = ''refunded''\<rparr>
   \<and> isl (fst (refund market 23 (Some 0) 63 None))
   \<and> snd (refund market 23 (Some 0) 63 None) = market"
  using refund_rules [of market 0 "orders market ! 0" 21 62 None Customer]
    refund_rules [of market 0 "orders market ! 0" 23 63 None Admin]
  by (simp add: findOrder_def market_def shop_def)

text \<open>
  The claim as first stated lets every amount equal to the total set both fields. The
  handler treats the amount 0 as a missing amount: on a paid order whose total is 0 (its
  product was fully discounted), the refund of the total is rejected and the order keeps
  its status.
\<close>

theorem refund_zero_total:
  "map_option paymentStatus (findOrder market 3) = Some ''paid''
   \<and> map_option total (findOrder market 3) = Some 0
   \<and> users market 23 = Some Admin
   \<and> refund market 23 (Some 3) 0 None = (Inl InvalidInput, market)"
  by (simp add: refund_def findOrder_def market_def shop_def)

text \<open>
  Claim C10. A refund request by an admin or by the customer who owns the order, on an
  order whose payment status is \<^verbatim>\<open>'paid'\<close>, with an amount strictly between 0 and the
  order's total, reports success and leaves the database (so the order's status,
  payment status, total and items) unchanged; and whatever the caller and the order's
  state, a refund whose amount differs from the total changes nothing: only a full
  refund mutates the order.
\<close>

theorem refund_partial:
  assumes "findOrder st oid = Some ord"
  shows "(users st uid = Some r \<and> (r = Admin \<or> customer ord = uid) \<and>
          paymentStatus ord = ''paid'' \<and> 0 < amount \<and> amount < total ord \<longrightarrow>
            refund st uid (Some oid) amount reason =
              (Inr \<lparr>refundAmount = amount,
                    refundReason = (case reason of None \<Rightarrow> ''Customer request''
                       | Some s \<Rightarrow> if s = [] then ''Customer request'' else s),
                    refundStatus = ''succeeded'', refundOrderId = oid\<rparr>, st)) \<and>
         (amount \<noteq> total ord \<longrightarrow> snd (refund st uid (Some oid) amount reason) = st)"
  using assms
  by (auto simp: refund_def Let_def saveOrder_same split: option.splits)

theorem refund_partial_witness:
  "refund market 21 (Some 0) 20 (Some ''damaged'') =
     (Inr \<lparr>refundAmount = 20, refundReason = ''damaged'', refundStatus = ''succeeded'',
           refundOrderId = 0\<rparr>, market)"
  using refund_partial [of market 0 "orders market ! 0" 21 Customer 20 "Some ''damaged''"]
  by (simp add: findOrder_def market_def shop_def)

section \<open>Terminal states\<close>

lemma pay_order_terminal:
  assumes "findOrder st oid = Some ord" and "status ord \<noteq> ''pending''"
  shows "findOrder (snd (pay_order st uid oid')) oid = Some ord"
    and "isl (fst (pay_order st uid oid))"
  using assms
  by (auto simp: pay_order_def Let_def findOrder_saveOrder split: option.splits)

lemma cancel_order_terminal:
  assumes "findOrder st oid = Some ord" and "status ord \<notin> set [''pending'', ''paid'']"
  shows "findOrder (snd (cancel_order st uid oid')) oid = Some ord"
    and "isl (fst (cancel_order st uid oid))"
  using assms
  by (auto simp: cancel_order_def Let_def findOrder_saveOrder split: option.splits)

lemma refund_status:
  assumes "findOrder st oid = Some ord"
  shows "findOrder (snd (refund st uid orderId amount reason)) oid = Some ord \<or>
         (findOrder (snd (refund st uid orderId amount reason)) oid =
            Some (ord\<lparr>status := ''refunded'', paymentStatus := ''refunded''\<rparr>) \<and>
          orderId = Some oid \<and> paymentStatus ord = ''paid'' \<and> amount = total ord)"
  using assms
  by (auto simp: refund_def Let_def findOrder_saveOrder saveOrder_same split: option.splits)

text \<open>
  Claim C3 (as amended). For every order whose status is \<^verbatim>\<open>'delivered'\<close>,
  \<^verbatim>\<open>'cancelled'\<close> or \<^verbatim>\<open>'refunded'\<close>: customer pay and cancellation of the order are
  rejected, and no customer pay or cancellation request (of this or of another order)
  changes the order; a refund request leaves the order as it is, unless it is a refund
  of this order's whole total while its payment status is \<^verbatim>\<open>'paid'\<close>, which sets its
  status and payment status to \<^verbatim>\<open>'refunded'\<close>. Nothing is said here of the admin order
  update, the vendor status update and the payment confirmation.
\<close>

theorem terminal_status_kept:
  assumes "findOrder st oid = Some ord"
    and "status ord \<in> {''delivered'', ''cancelled'', ''refunded''}"
  shows "isl (fst (pay_order st uid oid)) \<and>
         findOrder (snd (pay_order st uid oid')) oid = Some ord \<and>
         isl (fst (cancel_order st uid oid)) \<and>
         findOrder (snd (cancel_order st uid oid')) oid = Some ord \<and>
         (findOrder (snd (refund st uid orderId amount reason)) oid = Some ord \<or>
          (findOrder (snd (refund st uid orderId amount reason)) oid =
             Some (ord\<lparr>status := ''refunded'', paymentStatus := ''refunded''\<rparr>) \<and>
           orderId = Some oid \<and> paymentStatus ord = ''paid'' \<and> amount = total ord))"
proof -
  from assms(2) have np: "status ord \<noteq> ''pending''"
    and nc: "status ord \<notin> set [''pending'', ''paid'']"
    by auto
  show ?thesis
    using pay_order_terminal [OF assms(1) np] cancel_order_terminal [OF assms(1) nc]
      refund_status [OF assms(1)]
    by blast
qed

theorem terminal_status_kept_witness:
  "isl (fst (pay_order market 21 2))
   \<and> findOrder (snd (pay_order market 21 1)) 2 = findOrder market 2
   \<and> isl (fst (cancel_order market 23 2))
   \<and> findOrder (snd (cancel_order market 23 0)) 2 = findOrder market 2
   \<and> map_option status (findOrder (snd (refund market 21 (Some 2) 8 None)) 2) = Some ''refunded''
   \<and> map_option status (findOrder (snd (refund market 21 (Some 2) 5 None)) 2) = Some ''delivered''"
proof -
  have o2: "findOrder market 2 = Some (orders market ! 2)"
    by (simp add: findOrder_def market_def)
  have t: "status (orders market ! 2) \<in> {''delivered'', ''cancelled'', ''refunded''}"
    by (simp add: market_def)
  have r8: "map_option status (findOrder (snd (refund market 21 (Some 2) 8 None)) 2) = Some ''refunded''"
    by (simp add: refund_def findOrder_def saveOrder_def market_def shop_def Let_def)
  have r5: "map_option status (findOrder (snd (refund market 21 (Some 2) 5 None)) 2) = Some ''delivered''"
    by (simp add: refund_def findOrder_def saveOrder_def market_def shop_def Let_def)
  show ?thesis
    using terminal_status_kept [OF o2 t, of 21 1 "Some 2" 8 None]
      terminal_status_kept [OF o2 t, of 23 0 "Some 2" 8 None] r8 r5
    by (simp add: o2)
qed

text \<open>
  The claim as first stated covers every operation. The admin order update writes any
  status of the schema's enum over a delivered order; the vendor status update and the
  payment confirmation overwrite the status as well, without reading the current one.
\<close>

theorem terminal_status_overwritten:
  "map_option status (findOrder market 2) = Some ''delivered''
   \<and> map_option status
        (findOrder (snd (update_order market 23 2 (Some ''pending'') (Some 8)
           (Some ''1 Main St''))) 2) =
       Some ''pending''
   \<and> map_option status (findOrder (snd (update_status market 22 2 ''shipped'')) 2) =
       Some ''shipped''
   \<and> map_option status
        (findOrder (snd (confirm_payment market 21 (Some ''pi_1'') (Some 2))) 2) =
       Some ''paid''"
  by (simp add: update_order_def update_status_def confirm_payment_def findOrder_def
      saveOrder_def vendorProducts_def orderStatuses_def market_def shop_def Let_def)

section \<open>The price snapshot of an order\<close>

















end
